theory Spec2Isabelle
  imports Main "HOL-Library.Product_Lexorder"
begin

section \<open>The Need repository of vitrine-social (server/db/repo/need.go)\<close>

text \<open>
  The repository is a thin layer over a relational store. The embedding keeps the Go
  functions as they are written: a Go result \<open>(T, error)\<close> is a pair whose second
  component is \<open>None\<close> for a nil error, a pointer result is an \<open>option\<close>
  (\<open>None\<close> is the nil pointer), a nil slice and an empty slice are both \<open>[]\<close>,
  and a nil pointer dereference is the outcome \<open>Panic\<close>. The tables the repository
  writes (\<open>needs\<close>, \<open>needs_images\<close>) are an explicit state that the writing
  operations return updated. Identifiers are Go \<open>int64\<close> values on which the code
  does no arithmetic; they are modelled as \<open>int\<close>.
\<close>

subsection \<open>Errors\<close>

text \<open>
  \<open>ErrNoRows\<close> is the sentinel \<open>sql.ErrNoRows\<close>; \<open>ErrDriver\<close> is any other error of
  the driver or of a collaborator. The remaining constructors are the four messages
  the file builds with \<open>errors.New\<close> and \<open>fmt.Errorf\<close> (title required, category not
  found with its identifier, organization not found with its identifier, sort direction
  not recognised).
\<close>

datatype error =
    ErrNoRows
  | ErrDriver string
  | ErrTitleRequired
  | ErrCategoryNotFound int
  | ErrOrganizationNotFound int
  | ErrOrderNotRecognized

datatype 'a outcome = Returned 'a | Panic

subsection \<open>The model package\<close>

text \<open>
  Modelled from the spec: the package \<open>model\<close> (the structs Need, NeedImage, Category
  and BaseOrganization and the status constants) is not part of the source at hand. The
  fields are those of section 3 of the specification, named as need.go names them. The
  status is an enumeration of which need.go uses \<open>NeedStatusActive\<close> only. Points in
  time are abstract integers; a nil \<open>DueDate\<close> or \<open>UpdatedAt\<close> is \<open>None\<close>.
\<close>

datatype needStatus = NeedStatusActive | NeedStatusOther string

record Category =
  Category_ID :: int
  Category_Name :: string

record BaseOrganization =
  Organization_ID :: int
  Organization_Name :: string

record NeedImage =
  Image_ID :: int
  Image_NeedID :: int
  Image_Name :: string
  Image_URL :: string

record Need =
  ID :: int
  CategoryID :: int
  OrganizationID :: int
  Title :: string
  Description :: string
  RequiredQuantity :: int
  ReachedQuantity :: int
  DueDate :: "int option"
  Status :: needStatus
  Unit :: string
  CreatedAt :: int
  UpdatedAt :: "int option"
  Images :: "NeedImage list"
  Category :: Category
  Organization :: BaseOrganization

subsection \<open>The database\<close>

text \<open>
  The rows of the two tables, with the columns that the statements of need.go name.
  \<open>needs_id_seq\<close> and \<open>needs_images_id_seq\<close> are the generators behind
  \<open>RETURNING id\<close>, and \<open>clock\<close> is what \<open>now()\<close> evaluates to.
\<close>

record needs_row =
  r_id :: int
  r_category_id :: int
  r_organization_id :: int
  r_title :: string
  r_description :: string
  r_required_qtd :: int
  r_reached_qtd :: int
  r_due_date :: "int option"
  r_status :: needStatus
  r_unit :: string
  r_created_at :: int
  r_updated_at :: "int option"

record database =
  needs :: "needs_row list"
  needs_images :: "NeedImage list"
  needs_id_seq :: int
  needs_images_id_seq :: int
  clock :: int

text \<open>
  The statements the repository sends, with their arguments. The statement of
  \<open>GetOrganizationNeeds\<close> is built at run time: it carries the text that follows
  \<open>SELECT * FROM needs WHERE organization_id = $1\<close>.
\<close>

datatype stmt =
    SelectNeed int
  | SelectNeedImages int
  | InsertNeed int int string string int int "int option" needStatus string
  | UpdateNeed int string string int int "int option" string needStatus int
  | InsertNeedImage int string string
  | DeleteNeedImage int int
  | SelectOrganizationNeeds string int

text \<open>
  The receiver of the methods. \<open>driver\<close> says which statements the connection fails
  (a connection or driver error, whatever the tables hold). The two collaborators are
  repositories whose code is not part of the source at hand; they are parameters. They
  read tables that this repository never writes, so their answers do not depend on
  the state threaded here. \<open>catRepo_Get\<close> returns a Category value,
  \<open>orgRepo_GetBaseOrganization\<close> a pointer.
\<close>

record NeedRepository =
  driver :: "stmt \<Rightarrow> error option"
  catRepo_Get :: "int \<Rightarrow> Category \<times> error option"
  orgRepo_GetBaseOrganization :: "int \<Rightarrow> BaseOrganization option \<times> error option"

subsection \<open>strings.TrimSpace\<close>

text \<open>
  A Go string is a sequence of bytes. \<open>strings.TrimSpace\<close> removes the leading and the
  trailing code points that \<open>unicode.IsSpace\<close> accepts; \<open>White_Space\<close> lists their
  UTF-8 encodings (U+0009 to U+000D, U+0020, U+0085, U+00A0, U+1680, U+2000 to U+200A,
  U+2028, U+2029, U+202F, U+205F, U+3000).
\<close>

definition White_Space :: "string list" where
  "White_Space =
     map (\<lambda>c. [c]) [CHR 0x09, CHR 0x0A, CHR 0x0B, CHR 0x0C, CHR 0x0D, CHR 0x20] @
     [[CHR 0xC2, CHR 0x85], [CHR 0xC2, CHR 0xA0], [CHR 0xE1, CHR 0x9A, CHR 0x80]] @
     map (\<lambda>c. [CHR 0xE2, CHR 0x80, c])
       [CHR 0x80, CHR 0x81, CHR 0x82, CHR 0x83, CHR 0x84, CHR 0x85, CHR 0x86, CHR 0x87,
        CHR 0x88, CHR 0x89, CHR 0x8A, CHR 0xA8, CHR 0xA9, CHR 0xAF] @
     [[CHR 0xE2, CHR 0x81, CHR 0x9F], [CHR 0xE3, CHR 0x80, CHR 0x80]]"

definition spaceWidth :: "string list \<Rightarrow> string \<Rightarrow> nat" where
  "spaceWidth ws s =
     (case find (\<lambda>w. w \<noteq> [] \<and> take (length w) s = w) ws of
        None \<Rightarrow> 0
      | Some w \<Rightarrow> length w)"

function trimLeft :: "string list \<Rightarrow> string \<Rightarrow> string" where
  "trimLeft ws s = (if spaceWidth ws s = 0 then s else trimLeft ws (drop (spaceWidth ws s) s))"
  by pat_completeness auto

termination trimLeft
proof (relation "measure (\<lambda>(ws, s). length s)")
  show "wf (measure (\<lambda>(ws, s). length s))" by simp
next
  fix ws :: "string list" and s :: string
  assume nz: "spaceWidth ws s \<noteq> 0"
  then obtain w where w: "find (\<lambda>w. w \<noteq> [] \<and> take (length w) s = w) ws = Some w"
    by (auto simp: spaceWidth_def split: option.splits)
  then have "take (length w) s = w" and "w \<noteq> []"
    by (auto simp: find_Some_iff)
  then have "length w = length (take (length w) s)" and pos: "0 < length w"
    by simp_all
  then have le: "length w \<le> length s"
    by simp
  from w have "spaceWidth ws s = length w"
    by (simp add: spaceWidth_def)
  moreover from pos le have "length s - length w < length s"
    by arith
  ultimately have "length (drop (spaceWidth ws s) s) < length s"
    by simp
  then show "((ws, drop (spaceWidth ws s) s), (ws, s)) \<in> measure (\<lambda>(ws, s). length s)"
    by simp
qed

declare trimLeft.simps [simp del]

definition TrimSpace :: "string \<Rightarrow> string" where
  "TrimSpace s = rev (trimLeft (map rev White_Space) (rev (trimLeft White_Space s)))"

subsection \<open>validate\<close>

definition validate :: "NeedRepository \<Rightarrow> Need \<Rightarrow> Need \<times> error option" where
  "validate r n0 =
     (let n = n0\<lparr>Title := TrimSpace (Title n0)\<rparr> in
      if length (Title n) = 0 then (n, Some ErrTitleRequired)
      else
        (case snd (catRepo_Get r (CategoryID n)) of
           Some err \<Rightarrow>
             if err = ErrNoRows then (n, Some (ErrCategoryNotFound (CategoryID n)))
             else (n, Some err)
         | None \<Rightarrow>
             (case snd (orgRepo_GetBaseOrganization r (OrganizationID n)) of
                Some err \<Rightarrow>
                  if err = ErrNoRows then (n, Some (ErrOrganizationNotFound (OrganizationID n)))
                  else (n, Some err)
              | None \<Rightarrow> (n, None))))"

subsection \<open>The statements\<close>

text \<open>
  What \<open>SELECT *\<close> scans into a Need: the columns go to the fields with their names,
  the fields that are no columns (images, category, organization) keep what they held.
\<close>

definition zeroNeed :: Need where
  "zeroNeed =
     \<lparr>ID = 0, CategoryID = 0, OrganizationID = 0, Title = [], Description = [],
      RequiredQuantity = 0, ReachedQuantity = 0, DueDate = None, Status = NeedStatusOther [],
      Unit = [], CreatedAt = 0, UpdatedAt = None, Images = [],
      Category = \<lparr>Category_ID = 0, Category_Name = []\<rparr>,
      Organization = \<lparr>Organization_ID = 0, Organization_Name = []\<rparr>\<rparr>"

definition scanNeed :: "needs_row \<Rightarrow> Need \<Rightarrow> Need" where
  "scanNeed row n =
     n\<lparr>ID := r_id row, CategoryID := r_category_id row,
       OrganizationID := r_organization_id row, Title := r_title row,
       Description := r_description row, RequiredQuantity := r_required_qtd row,
       ReachedQuantity := r_reached_qtd row, DueDate := r_due_date row,
       Status := r_status row, Unit := r_unit row, CreatedAt := r_created_at row,
       UpdatedAt := r_updated_at row\<rparr>"

text \<open>\<open>SELECT * FROM needs WHERE id = $1\<close>, read with \<open>db.Get\<close>: the first row, or
  \<open>sql.ErrNoRows\<close>.\<close>

definition select_need :: "NeedRepository \<Rightarrow> database \<Rightarrow> int \<Rightarrow> error + needs_row" where
  "select_need r db i =
     (case driver r (SelectNeed i) of
        Some err \<Rightarrow> Inl err
      | None \<Rightarrow>
          (case find (\<lambda>row. r_id row = i) (needs db) of
             None \<Rightarrow> Inl ErrNoRows
           | Some row \<Rightarrow> Inr row))"

text \<open>\<open>SELECT * FROM needs_images WHERE need_id = $1\<close>, read with \<open>db.Select\<close>.\<close>

definition select_need_images ::
  "NeedRepository \<Rightarrow> database \<Rightarrow> int \<Rightarrow> error + NeedImage list" where
  "select_need_images r db i =
     (case driver r (SelectNeedImages i) of
        Some err \<Rightarrow> Inl err
      | None \<Rightarrow> Inr (filter (\<lambda>img. Image_NeedID img = i) (needs_images db)))"

text \<open>\<open>INSERT INTO needs (...) VALUES (...) RETURNING id\<close>: the identifier comes from
  the generator, the creation time from the clock, and the update time is null.\<close>

definition insert_need ::
  "NeedRepository \<Rightarrow> database \<Rightarrow> int \<Rightarrow> int \<Rightarrow> string \<Rightarrow> string \<Rightarrow> int \<Rightarrow> int \<Rightarrow> int option \<Rightarrow>
   needStatus \<Rightarrow> string \<Rightarrow> (error + int) \<times> database" where
  "insert_need r db category_id organization_id title description required_qtd reached_qtd
     due_date status unit =
     (case driver r (InsertNeed category_id organization_id title description required_qtd
                       reached_qtd due_date status unit) of
        Some err \<Rightarrow> (Inl err, db)
      | None \<Rightarrow>
          (Inr (needs_id_seq db),
           db\<lparr>needs := needs db @
                  [\<lparr>r_id = needs_id_seq db, r_category_id = category_id,
                    r_organization_id = organization_id, r_title = title,
                    r_description = description, r_required_qtd = required_qtd,
                    r_reached_qtd = reached_qtd, r_due_date = due_date, r_status = status,
                    r_unit = unit, r_created_at = clock db, r_updated_at = None\<rparr>],
              needs_id_seq := needs_id_seq db + 1\<rparr>))"

text \<open>\<open>UPDATE needs SET category_id = $1, title = $2, description = $3, required_qtd = $4,
  reached_qtd = $5, due_date = $6, unit = $7, status = $8, updated_at = now() WHERE id = $9\<close>.\<close>

definition update_need ::
  "NeedRepository \<Rightarrow> database \<Rightarrow> int \<Rightarrow> string \<Rightarrow> string \<Rightarrow> int \<Rightarrow> int \<Rightarrow> int option \<Rightarrow> string \<Rightarrow>
   needStatus \<Rightarrow> int \<Rightarrow> error option \<times> database" where
  "update_need r db category_id title description required_qtd reached_qtd due_date unit
     status i =
     (case driver r (UpdateNeed category_id title description required_qtd reached_qtd
                       due_date unit status i) of
        Some err \<Rightarrow> (Some err, db)
      | None \<Rightarrow>
          (None,
           db\<lparr>needs :=
                map (\<lambda>row. if r_id row = i
                            then row\<lparr>r_category_id := category_id, r_title := title,
                                   r_description := description,
                                   r_required_qtd := required_qtd,
                                   r_reached_qtd := reached_qtd, r_due_date := due_date,
                                   r_unit := unit, r_status := status,
                                   r_updated_at := Some (clock db)\<rparr>
                            else row)
                  (needs db)\<rparr>))"

text \<open>\<open>INSERT INTO needs_images (need_id, name, url) VALUES ($1, $2, $3) RETURNING id\<close>.\<close>

definition insert_need_image ::
  "NeedRepository \<Rightarrow> database \<Rightarrow> int \<Rightarrow> string \<Rightarrow> string \<Rightarrow> (error + int) \<times> database" where
  "insert_need_image r db need_id name url =
     (case driver r (InsertNeedImage need_id name url) of
        Some err \<Rightarrow> (Inl err, db)
      | None \<Rightarrow>
          (Inr (needs_images_id_seq db),
           db\<lparr>needs_images := needs_images db @
                  [\<lparr>Image_ID = needs_images_id_seq db, Image_NeedID = need_id,
                    Image_Name = name, Image_URL = url\<rparr>],
              needs_images_id_seq := needs_images_id_seq db + 1\<rparr>))"

text \<open>\<open>DELETE FROM needs_images WHERE id = $1 AND need_id = $2\<close>.\<close>

definition delete_need_image ::
  "NeedRepository \<Rightarrow> database \<Rightarrow> int \<Rightarrow> int \<Rightarrow> error option \<times> database" where
  "delete_need_image r db image_id need_id =
     (case driver r (DeleteNeedImage image_id need_id) of
        Some err \<Rightarrow> (Some err, db)
      | None \<Rightarrow>
          (None,
           db\<lparr>needs_images :=
                filter (\<lambda>img. \<not> (Image_ID img = image_id \<and> Image_NeedID img = need_id))
                  (needs_images db)\<rparr>))"

text \<open>
  \<open>SELECT * FROM needs WHERE organization_id = $1\<close> followed by the text that
  \<open>GetOrganizationNeeds\<close> builds. Without an ORDER BY clause the rows come in the order
  of the table. Ascending order puts nulls last and descending order puts them first,
  as PostgreSQL does; rows with equal keys keep the order of the table (the database
  promises no order among them). Any other text is a syntax error of the statement.
\<close>

definition nulls_last :: "int option \<Rightarrow> bool \<times> int" where
  "nulls_last t = (case t of None \<Rightarrow> (True, 0) | Some x \<Rightarrow> (False, x))"

definition order_by :: "string \<Rightarrow> needs_row list \<Rightarrow> needs_row list option" where
  "order_by clause rows =
     (if clause = [] then Some rows
      else if clause = ''ORDER BY id asc '' then Some (sort_key r_id rows)
      else if clause = ''ORDER BY id desc '' then Some (rev (sort_key r_id rows))
      else if clause = ''ORDER BY updated_at asc ''
        then Some (sort_key (\<lambda>row. nulls_last (r_updated_at row)) rows)
      else if clause = ''ORDER BY updated_at desc ''
        then Some (rev (sort_key (\<lambda>row. nulls_last (r_updated_at row)) rows))
      else if clause = ''ORDER BY created_at asc '' then Some (sort_key r_created_at rows)
      else if clause = ''ORDER BY created_at desc ''
        then Some (rev (sort_key r_created_at rows))
      else None)"

definition select_organization_needs ::
  "NeedRepository \<Rightarrow> database \<Rightarrow> string \<Rightarrow> int \<Rightarrow> error + needs_row list" where
  "select_organization_needs r db clause oID =
     (case driver r (SelectOrganizationNeeds clause oID) of
        Some err \<Rightarrow> Inl err
      | None \<Rightarrow>
          (case order_by clause (filter (\<lambda>row. r_organization_id row = oID) (needs db)) of
             None \<Rightarrow> Inl (ErrDriver ''syntax error'')
           | Some rows \<Rightarrow> Inr rows))"

subsection \<open>The methods of NeedRepository\<close>

definition getNeedImages ::
  "NeedRepository \<Rightarrow> database \<Rightarrow> Need \<Rightarrow> NeedImage list \<times> error option" where
  "getNeedImages r db n =
     (case select_need_images r db (ID n) of
        Inl err \<Rightarrow> ([], Some err)
      | Inr images \<Rightarrow> (images, None))"

definition GetNeedsImages ::
  "NeedRepository \<Rightarrow> database \<Rightarrow> Need \<Rightarrow> NeedImage list \<times> error option" where
  "GetNeedsImages r db n = getNeedImages r db n"

text \<open>
  \<open>Get\<close> checks the error of the first statement only. The errors of the image list
  and of the category are assigned and overwritten, and the organization pointer is
  dereferenced whatever the error of its lookup is.
\<close>

definition Get ::
  "NeedRepository \<Rightarrow> database \<Rightarrow> int \<Rightarrow> (Need option \<times> error option) outcome" where
  "Get r db i =
     (case select_need r db i of
        Inl err \<Rightarrow> Returned (None, Some err)
      | Inr row \<Rightarrow>
          (let n = scanNeed row zeroNeed;
               n = n\<lparr>Images := fst (getNeedImages r db n)\<rparr>;
               n = n\<lparr>Category := fst (catRepo_Get r (CategoryID n))\<rparr>
           in case fst (orgRepo_GetBaseOrganization r (OrganizationID n)) of
                None \<Rightarrow> Panic
              | Some org \<Rightarrow> Returned (Some (n\<lparr>Organization := org\<rparr>), None)))"

definition Create ::
  "NeedRepository \<Rightarrow> database \<Rightarrow> Need \<Rightarrow> (Need \<times> error option) \<times> database" where
  "Create r db n0 =
     (case validate r n0 of
        (n, Some err) \<Rightarrow> ((n, Some err), db)
      | (n, None) \<Rightarrow>
          (let n = n\<lparr>Status := NeedStatusActive\<rparr> in
           case insert_need r db (CategoryID n) (OrganizationID n) (Title n) (Description n)
                  (RequiredQuantity n) (ReachedQuantity n) (DueDate n) (Status n) (Unit n) of
             (Inl err, db') \<Rightarrow> ((n, Some err), db')
           | (Inr new_id, db') \<Rightarrow> ((n\<lparr>ID := new_id\<rparr>, None), db')))"

definition Update ::
  "NeedRepository \<Rightarrow> database \<Rightarrow> Need \<Rightarrow> (Need \<times> error option) \<times> database" where
  "Update r db n0 =
     (case validate r n0 of
        (n, Some err) \<Rightarrow> ((n, Some err), db)
      | (n, None) \<Rightarrow>
          (case update_need r db (CategoryID n) (Title n) (Description n)
                  (RequiredQuantity n) (ReachedQuantity n) (DueDate n) (Unit n) (Status n)
                  (ID n) of
             (Some err, db') \<Rightarrow> ((n, Some err), db')
           | (None, db') \<Rightarrow> ((n, None), db')))"

definition CreateImage ::
  "NeedRepository \<Rightarrow> database \<Rightarrow> NeedImage \<Rightarrow> (NeedImage \<times> error option) \<times> database" where
  "CreateImage r db i =
     (case insert_need_image r db (Image_NeedID i) (Image_Name i) (Image_URL i) of
        (Inl err, db') \<Rightarrow> ((i, Some err), db')
      | (Inr new_id, db') \<Rightarrow> ((i\<lparr>Image_ID := new_id\<rparr>, None), db'))"

definition DeleteImage ::
  "NeedRepository \<Rightarrow> database \<Rightarrow> int \<Rightarrow> int \<Rightarrow> error option \<times> database" where
  "DeleteImage r db imageID needID = delete_need_image r db imageID needID"

text \<open>
  The first block of \<open>GetOrganizationNeeds\<close> (the variable \<open>filter\<close>): the ORDER BY
  clause, or the error of the direction. \<open>fmt.Sprintf("ORDER BY %s %s ", orderBy, order)\<close>
  is the concatenation below.
\<close>

definition orderFilter :: "string \<Rightarrow> string \<Rightarrow> error + string" where
  "orderFilter orderBy0 order0 =
     (if length orderBy0 > 0 then
        (let orderBy = (if orderBy0 = ''id'' \<or> orderBy0 = ''updated_at'' then orderBy0
                        else ''created_at'')
         in if length order0 > 0 \<and> order0 \<noteq> ''asc'' \<and> order0 \<noteq> ''desc''
            then Inl ErrOrderNotRecognized
            else (let order = (if length order0 > 0 then order0 else ''asc'')
                  in Inr (''ORDER BY '' @ orderBy @ '' '' @ order @ '' '')))
      else Inr [])"

text \<open>The loop over the rows read: the category, then the images, of each; the first
  error ends the loop and the call.\<close>

fun enrich :: "NeedRepository \<Rightarrow> database \<Rightarrow> Need list \<Rightarrow> Need list \<times> error option" where
  "enrich r db [] = ([], None)"
| "enrich r db (n # ns) =
     (case catRepo_Get r (CategoryID n) of
        (c, Some err) \<Rightarrow> ([], Some err)
      | (c, None) \<Rightarrow>
          (case getNeedImages r db (n\<lparr>Category := c\<rparr>) of
             (images, Some err) \<Rightarrow> ([], Some err)
           | (images, None) \<Rightarrow>
               (case enrich r db ns of
                  (ns', Some err) \<Rightarrow> ([], Some err)
                | (ns', None) \<Rightarrow> (n\<lparr>Category := c, Images := images\<rparr> # ns', None))))"

definition GetOrganizationNeeds ::
  "NeedRepository \<Rightarrow> database \<Rightarrow> int \<Rightarrow> string \<Rightarrow> string \<Rightarrow> Need list \<times> error option" where
  "GetOrganizationNeeds r db oID orderBy order =
     (case orderFilter orderBy order of
        Inl err \<Rightarrow> ([], Some err)
      | Inr clause \<Rightarrow>
          (case select_organization_needs r db clause oID of
             Inl err \<Rightarrow> ([], Some err)
           | Inr rows \<Rightarrow> enrich r db (map (\<lambda>row. scanNeed row zeroNeed) rows)))"

subsection \<open>Concrete inputs\<close>

text \<open>
  A repository whose connection never fails, with the categories 1 and 2 and the
  organizations 2 and 3, and a database with two needs of organization 2 and one image
  of each.
\<close>

definition example_repo :: NeedRepository where
  "example_repo =
     \<lparr>driver = (\<lambda>s. None),
      catRepo_Get =
        (\<lambda>i. if i = 1 then (\<lparr>Category_ID = 1, Category_Name = ''Food''\<rparr>, None)
              else if i = 2 then (\<lparr>Category_ID = 2, Category_Name = ''Clothes''\<rparr>, None)
              else (\<lparr>Category_ID = 0, Category_Name = []\<rparr>, Some ErrNoRows)),
      orgRepo_GetBaseOrganization =
        (\<lambda>i. if i = 2 then (Some \<lparr>Organization_ID = 2, Organization_Name = ''Shelter''\<rparr>, None)
              else if i = 3 then (Some \<lparr>Organization_ID = 3, Organization_Name = ''Kitchen''\<rparr>, None)
              else (None, Some ErrNoRows))\<rparr>"

definition example_db :: database where
  "example_db =
     \<lparr>needs =
        [\<lparr>r_id = 5, r_category_id = 1, r_organization_id = 2, r_title = ''Rice'',
          r_description = ''bags of rice'', r_required_qtd = 10, r_reached_qtd = 3,
          r_due_date = Some 200, r_status = NeedStatusActive, r_unit = ''kg'',
          r_created_at = 50, r_updated_at = None\<rparr>,
         \<lparr>r_id = 6, r_category_id = 2, r_organization_id = 2, r_title = ''Blankets'',
          r_description = ''for the winter'', r_required_qtd = 40, r_reached_qtd = 0,
          r_due_date = None, r_status = NeedStatusOther ''INACTIVE'', r_unit = ''un'',
          r_created_at = 30, r_updated_at = Some 60\<rparr>],
      needs_images =
        [\<lparr>Image_ID = 1, Image_NeedID = 5, Image_Name = ''rice'', Image_URL = ''/img/1''\<rparr>,
         \<lparr>Image_ID = 2, Image_NeedID = 6, Image_Name = ''blanket'', Image_URL = ''/img/2''\<rparr>],
      needs_id_seq = 7, needs_images_id_seq = 3, clock = 100\<rparr>"

definition example_need :: Need where
  "example_need =
     zeroNeed\<lparr>CategoryID := 1, OrganizationID := 2, Title := '' Beans '',
              Description := ''dried'', RequiredQuantity := 20, ReachedQuantity := 4,
              DueDate := Some 300, Status := NeedStatusOther ''INACTIVE'', Unit := ''kg''\<rparr>"

text \<open>
  The same repository on a bad connection: the statement that reads the images of
  need 5 fails, and so does every category lookup.
\<close>

definition faulty_repo :: NeedRepository where
  "faulty_repo =
     example_repo
       \<lparr>driver := (\<lambda>s. if s = SelectNeedImages 5 then Some (ErrDriver ''connection reset'')
                        else None),
        catRepo_Get := (\<lambda>i. (\<lparr>Category_ID = 0, Category_Name = []\<rparr>,
                              Some (ErrDriver ''connection reset'')))\<rparr>"

text \<open>A title of a space, a tab and a no-break space (U+00A0).\<close>

definition blank_title :: string where
  "blank_title = [CHR 0x20, CHR 0x09, CHR 0xC2, CHR 0xA0]"

section \<open>Properties\<close>

subsection \<open>Auxiliary facts\<close>

lemma validate_ok:
  assumes "TrimSpace (Title n) \<noteq> []"
    and "snd (catRepo_Get r (CategoryID n)) = None"
    and "snd (orgRepo_GetBaseOrganization r (OrganizationID n)) = None"
  shows "validate r n = (n\<lparr>Title := TrimSpace (Title n)\<rparr>, None)"
  using assms by (simp add: validate_def)

lemma TrimSpace_Beans: "TrimSpace '' Beans '' = ''Beans''"
  by code_simp

lemma example_need_valid:
  "TrimSpace (Title example_need) \<noteq> []"
  "snd (catRepo_Get example_repo (CategoryID example_need)) = None"
  "snd (orgRepo_GetBaseOrganization example_repo (OrganizationID example_need)) = None"
  by (simp_all add: example_need_def example_repo_def TrimSpace_Beans)

subsection \<open>Create\<close>

text \<open>
  C1. A Need whose trimmed title is not empty and whose category and organization
  lookups report no error: whatever status the caller supplied, the Need that Create
  returns has the status Active; the only error Create can still return is the one of
  the driver for the INSERT statement, which is sent with the status Active; and when
  Create returns no error, the returned Need carries the identifier that the insert
  generated, which is the identifier of the one row added to the table.
\<close>

theorem Create_active_with_generated_id:
  assumes "TrimSpace (Title n) \<noteq> []"
    and "snd (catRepo_Get r (CategoryID n)) = None"
    and "snd (orgRepo_GetBaseOrganization r (OrganizationID n)) = None"
    and "Create r db n = ((n', err), db')"
  shows "Status n' = NeedStatusActive \<and>
         err = driver r (InsertNeed (CategoryID n) (OrganizationID n) (TrimSpace (Title n))
                 (Description n) (RequiredQuantity n) (ReachedQuantity n) (DueDate n)
                 NeedStatusActive (Unit n)) \<and>
         (err = None \<longrightarrow>
            ID n' = needs_id_seq db \<and>
            (\<exists>row. needs db' = needs db @ [row] \<and> r_id row = ID n' \<and>
                   r_status row = NeedStatusActive))"
proof -
  have v: "validate r n = (n\<lparr>Title := TrimSpace (Title n)\<rparr>, None)"
    using assms(1-3) by (rule validate_ok)
  let ?q = "InsertNeed (CategoryID n) (OrganizationID n) (TrimSpace (Title n)) (Description n)
              (RequiredQuantity n) (ReachedQuantity n) (DueDate n) NeedStatusActive (Unit n)"
  show ?thesis
  proof (cases "driver r ?q")
    case None
    then have "Create r db n =
        ((n\<lparr>Title := TrimSpace (Title n), Status := NeedStatusActive, ID := needs_id_seq db\<rparr>,
          None), snd (Create r db n)) \<and>
        (\<exists>row. needs (snd (Create r db n)) = needs db @ [row] \<and> r_id row = needs_id_seq db \<and>
               r_status row = NeedStatusActive)"
      unfolding Create_def v by (simp add: insert_need_def Let_def)
    with assms(4) have "n' = n\<lparr>Title := TrimSpace (Title n), Status := NeedStatusActive,
                          ID := needs_id_seq db\<rparr>"
      and "err = None"
      and "\<exists>row. needs db' = needs db @ [row] \<and> r_id row = needs_id_seq db \<and>
                 r_status row = NeedStatusActive"
      by auto
    with None show ?thesis by simp
  next
    case (Some e)
    then have "Create r db n =
        ((n\<lparr>Title := TrimSpace (Title n), Status := NeedStatusActive\<rparr>, Some e), db)"
      unfolding Create_def v by (simp add: insert_need_def Let_def)
    with assms(4) have "n' = n\<lparr>Title := TrimSpace (Title n), Status := NeedStatusActive\<rparr>"
      and "err = Some e"
      by auto
    with Some show ?thesis by simp
  qed
qed

theorem Create_active_with_generated_id_witness:
  "TrimSpace (Title example_need) \<noteq> [] \<and>
   snd (catRepo_Get example_repo (CategoryID example_need)) = None \<and>
   snd (orgRepo_GetBaseOrganization example_repo (OrganizationID example_need)) = None \<and>
   Status example_need = NeedStatusOther ''INACTIVE'' \<and>
   snd (fst (Create example_repo example_db example_need)) = None \<and>
   Status (fst (fst (Create example_repo example_db example_need))) = NeedStatusActive \<and>
   ID (fst (fst (Create example_repo example_db example_need))) = 7"
proof -
  have e: "snd (fst (Create example_repo example_db example_need)) = None"
    by (simp add: Create_def validate_def insert_need_def example_need_def example_repo_def
        TrimSpace_Beans Let_def)
  have "Create example_repo example_db example_need =
          ((fst (fst (Create example_repo example_db example_need)),
            snd (fst (Create example_repo example_db example_need))),
           snd (Create example_repo example_db example_need))"
    by simp
  from Create_active_with_generated_id [OF example_need_valid this] e example_need_valid
  show ?thesis by (simp add: example_db_def example_need_def zeroNeed_def)
qed

subsection \<open>Auxiliary facts on validate, Create and Update\<close>

lemma validate_fst: "fst (validate r n) = n\<lparr>Title := TrimSpace (Title n)\<rparr>"
  by (simp add: validate_def Let_def split: option.splits)

lemma TrimSpace_blank: "TrimSpace blank_title = []"
  unfolding blank_title_def by code_simp

lemma validate_example:
  "validate example_repo (example_need\<lparr>ID := i, OrganizationID := 3\<rparr>) =
     (example_need\<lparr>ID := i, OrganizationID := 3, Title := ''Beans''\<rparr>, None)"
  by (simp add: validate_def example_need_def example_repo_def TrimSpace_Beans)

lemma Create_validate_error:
  "snd (validate r n) = Some e \<Longrightarrow> Create r db n = (validate r n, db)"
  by (cases "validate r n") (simp add: Create_def)

lemma update_need_fst:
  "fst (update_need r db c t d rq re du u s i) = driver r (UpdateNeed c t d rq re du u s i)"
  by (simp add: update_need_def split: option.splits)

lemma update_need_columns:
  "map r_organization_id (needs (snd (update_need r db c t d rq re du u s i))) =
     map r_organization_id (needs db) \<and>
   map r_id (needs (snd (update_need r db c t d rq re du u s i))) = map r_id (needs db)"
  by (simp add: update_need_def o_def split: option.splits)

lemma update_need_no_match:
  assumes "i \<notin> r_id ` set (needs db)"
  shows "snd (update_need r db c t d rq re du u s i) = db"
proof -
  have "map (\<lambda>row. if r_id row = i
                            then row\<lparr>r_category_id := c, r_title := t,
                                   r_description := d,
                                   r_required_qtd := rq,
                                   r_reached_qtd := re, r_due_date := du,
                                   r_unit := u, r_status := s,
                                   r_updated_at := Some (clock db)\<rparr>
                            else row) (needs db) = needs db"
    using assms by (intro map_idI) auto
  then show ?thesis
    by (simp add: update_need_def split: option.splits)
qed

lemma Update_unfold:
  "Update r db n =
     (case snd (validate r n) of
        Some e \<Rightarrow> (validate r n, db)
      | None \<Rightarrow>
          (let n' = fst (validate r n);
               u = update_need r db (CategoryID n') (Title n') (Description n')
                     (RequiredQuantity n') (ReachedQuantity n') (DueDate n') (Unit n')
                     (Status n') (ID n')
           in ((n', fst u), snd u)))"
proof (cases "validate r n")
  case (Pair n' verr)
  show ?thesis
  proof (cases verr)
    case None
    obtain uerr db' where u: "update_need r db (CategoryID n') (Title n') (Description n')
                     (RequiredQuantity n') (ReachedQuantity n') (DueDate n') (Unit n')
                     (Status n') (ID n') = (uerr, db')"
      by (cases "update_need r db (CategoryID n') (Title n') (Description n')
                     (RequiredQuantity n') (ReachedQuantity n') (DueDate n') (Unit n')
                     (Status n') (ID n')")
    show ?thesis
      unfolding Update_def Pair None by (cases uerr) (simp_all add: u)
  next
    case (Some e)
    show ?thesis unfolding Update_def Pair Some by simp
  qed
qed

lemma update_need_sets:
  assumes "fst (update_need r db c t d rq re du u s i) = None"
    and "row \<in> set (needs (snd (update_need r db c t d rq re du u s i)))"
    and "r_id row = i"
  shows "r_category_id row = c \<and> r_title row = t \<and> r_description row = d \<and>
         r_required_qtd row = rq \<and> r_reached_qtd row = re \<and> r_due_date row = du \<and>
         r_unit row = u \<and> r_status row = s \<and> r_updated_at row = Some (clock db)"
proof -
  from assms(1) have n: "driver r (UpdateNeed c t d rq re du u s i) = None"
    by (simp add: update_need_fst)
  with assms(2) obtain row0 where "row0 \<in> set (needs db)"
    and "row = (if r_id row0 = i
                then row0\<lparr>r_category_id := c, r_title := t, r_description := d,
                       r_required_qtd := rq, r_reached_qtd := re, r_due_date := du,
                       r_unit := u, r_status := s, r_updated_at := Some (clock db)\<rparr>
                else row0)"
    by (auto simp: update_need_def)
  with assms(3) show ?thesis by (cases "r_id row0 = i") simp_all
qed

subsection \<open>validate\<close>

text \<open>
  C2. The validation that Create and Update share. It returns the Need with the title
  trimmed, and its error follows this order: an empty trimmed title gives the
  title-required error whatever the lookups say; otherwise a category lookup that
  reports no rows gives the category-not-found error with the identifier, and any other
  error of that lookup is returned as it is, whatever the organization lookup says;
  otherwise the organization lookup is treated the same way; otherwise there is no
  error. Whenever validate returns an error, Create and Update return what validate
  returned and the database is the one they were given: no row is inserted or updated.
\<close>

theorem validate_order_no_write:
  "fst (validate r n) = n\<lparr>Title := TrimSpace (Title n)\<rparr> \<and>
   (TrimSpace (Title n) = [] \<longrightarrow> snd (validate r n) = Some ErrTitleRequired) \<and>
   (TrimSpace (Title n) \<noteq> [] \<and> snd (catRepo_Get r (CategoryID n)) = Some ErrNoRows \<longrightarrow>
      snd (validate r n) = Some (ErrCategoryNotFound (CategoryID n))) \<and>
   (TrimSpace (Title n) \<noteq> [] \<and> snd (catRepo_Get r (CategoryID n)) = Some e \<and> e \<noteq> ErrNoRows \<longrightarrow>
      snd (validate r n) = Some e) \<and>
   (TrimSpace (Title n) \<noteq> [] \<and> snd (catRepo_Get r (CategoryID n)) = None \<and>
    snd (orgRepo_GetBaseOrganization r (OrganizationID n)) = Some ErrNoRows \<longrightarrow>
      snd (validate r n) = Some (ErrOrganizationNotFound (OrganizationID n))) \<and>
   (TrimSpace (Title n) \<noteq> [] \<and> snd (catRepo_Get r (CategoryID n)) = None \<and>
    snd (orgRepo_GetBaseOrganization r (OrganizationID n)) = Some e \<and> e \<noteq> ErrNoRows \<longrightarrow>
      snd (validate r n) = Some e) \<and>
   (TrimSpace (Title n) \<noteq> [] \<and> snd (catRepo_Get r (CategoryID n)) = None \<and>
    snd (orgRepo_GetBaseOrganization r (OrganizationID n)) = None \<longrightarrow>
      snd (validate r n) = None) \<and>
   (snd (validate r n) \<noteq> None \<longrightarrow>
      Create r db n = (validate r n, db) \<and> Update r db n = (validate r n, db))"
proof -
  have w: "snd (validate r n) \<noteq> None \<longrightarrow>
      Create r db n = (validate r n, db) \<and> Update r db n = (validate r n, db)"
    using Create_validate_error [of r n _ db] by (auto simp: Update_unfold)
  have o: "TrimSpace (Title n) = [] \<longrightarrow> snd (validate r n) = Some ErrTitleRequired"
    "TrimSpace (Title n) \<noteq> [] \<and> snd (catRepo_Get r (CategoryID n)) = Some ErrNoRows \<longrightarrow>
      snd (validate r n) = Some (ErrCategoryNotFound (CategoryID n))"
    "TrimSpace (Title n) \<noteq> [] \<and> snd (catRepo_Get r (CategoryID n)) = Some e \<and> e \<noteq> ErrNoRows \<longrightarrow>
      snd (validate r n) = Some e"
    "TrimSpace (Title n) \<noteq> [] \<and> snd (catRepo_Get r (CategoryID n)) = None \<and>
    snd (orgRepo_GetBaseOrganization r (OrganizationID n)) = Some ErrNoRows \<longrightarrow>
      snd (validate r n) = Some (ErrOrganizationNotFound (OrganizationID n))"
    "TrimSpace (Title n) \<noteq> [] \<and> snd (catRepo_Get r (CategoryID n)) = None \<and>
    snd (orgRepo_GetBaseOrganization r (OrganizationID n)) = Some e \<and> e \<noteq> ErrNoRows \<longrightarrow>
      snd (validate r n) = Some e"
    "TrimSpace (Title n) \<noteq> [] \<and> snd (catRepo_Get r (CategoryID n)) = None \<and>
    snd (orgRepo_GetBaseOrganization r (OrganizationID n)) = None \<longrightarrow>
      snd (validate r n) = None"
    by (simp_all add: validate_def)
  from validate_fst w o show ?thesis by blast
qed

theorem validate_order_no_write_witness:
  "Create example_repo example_db
     (example_need\<lparr>Title := blank_title, CategoryID := 9, OrganizationID := 9\<rparr>) =
     ((example_need\<lparr>Title := [], CategoryID := 9, OrganizationID := 9\<rparr>, Some ErrTitleRequired),
      example_db) \<and>
   Update example_repo example_db (example_need\<lparr>CategoryID := 9, OrganizationID := 9\<rparr>) =
     ((example_need\<lparr>Title := ''Beans'', CategoryID := 9, OrganizationID := 9\<rparr>,
       Some (ErrCategoryNotFound 9)), example_db) \<and>
   Create faulty_repo example_db example_need =
     ((example_need\<lparr>Title := ''Beans''\<rparr>, Some (ErrDriver ''connection reset'')), example_db) \<and>
   Update example_repo example_db (example_need\<lparr>OrganizationID := 9\<rparr>) =
     ((example_need\<lparr>Title := ''Beans'', OrganizationID := 9\<rparr>,
       Some (ErrOrganizationNotFound 9)), example_db) \<and>
   Update (example_repo\<lparr>orgRepo_GetBaseOrganization :=
              \<lambda>i. (None, Some (ErrDriver ''connection reset''))\<rparr>) example_db example_need =
     ((example_need\<lparr>Title := ''Beans''\<rparr>, Some (ErrDriver ''connection reset'')), example_db) \<and>
   validate example_repo example_need = (example_need\<lparr>Title := ''Beans''\<rparr>, None)"
proof -
  let ?r5 = "example_repo\<lparr>orgRepo_GetBaseOrganization :=
               \<lambda>i. (None, Some (ErrDriver ''connection reset''))\<rparr>"
  let ?n1 = "example_need\<lparr>Title := blank_title, CategoryID := 9, OrganizationID := 9\<rparr>"
  let ?n2 = "example_need\<lparr>CategoryID := 9, OrganizationID := 9\<rparr>"
  let ?n4 = "example_need\<lparr>OrganizationID := 9\<rparr>"
  let ?e = "ErrDriver ''connection reset''"
  have h1: "TrimSpace (Title ?n1) = []"
    by (simp add: TrimSpace_blank)
  have h2: "TrimSpace (Title ?n2) \<noteq> [] \<and>
            snd (catRepo_Get example_repo (CategoryID ?n2)) = Some ErrNoRows"
    by (simp add: example_need_def example_repo_def TrimSpace_Beans)
  have h3: "TrimSpace (Title example_need) \<noteq> [] \<and>
            snd (catRepo_Get faulty_repo (CategoryID example_need)) = Some ?e \<and> ?e \<noteq> ErrNoRows"
    by (simp add: example_need_def faulty_repo_def TrimSpace_Beans)
  have h4: "TrimSpace (Title ?n4) \<noteq> [] \<and>
            snd (catRepo_Get example_repo (CategoryID ?n4)) = None \<and>
            snd (orgRepo_GetBaseOrganization example_repo (OrganizationID ?n4)) = Some ErrNoRows"
    by (simp add: example_need_def example_repo_def TrimSpace_Beans)
  have t: "Title example_need = '' Beans ''"
    by (simp add: example_need_def)
  from validate_order_no_write [of example_repo ?n1 ?e example_db] h1
  have c1: "Create example_repo example_db ?n1 =
     ((example_need\<lparr>Title := [], CategoryID := 9, OrganizationID := 9\<rparr>, Some ErrTitleRequired),
      example_db)"
    by (simp add: prod_eq_iff)
  from validate_order_no_write [of example_repo ?n2 ?e example_db] h2
  have c2: "Update example_repo example_db ?n2 =
     ((example_need\<lparr>Title := ''Beans'', CategoryID := 9, OrganizationID := 9\<rparr>,
       Some (ErrCategoryNotFound 9)), example_db)"
    by (simp add: prod_eq_iff t TrimSpace_Beans)
  from validate_order_no_write [of faulty_repo example_need ?e example_db] h3
  have c3: "Create faulty_repo example_db example_need =
     ((example_need\<lparr>Title := ''Beans''\<rparr>, Some ?e), example_db)"
    by (simp add: prod_eq_iff t TrimSpace_Beans)
  from validate_order_no_write [of example_repo ?n4 ?e example_db] h4
  have c4: "Update example_repo example_db ?n4 =
     ((example_need\<lparr>Title := ''Beans'', OrganizationID := 9\<rparr>,
       Some (ErrOrganizationNotFound 9)), example_db)"
    by (simp add: prod_eq_iff t TrimSpace_Beans)
  have h5: "TrimSpace (Title example_need) \<noteq> [] \<and>
            snd (catRepo_Get ?r5 (CategoryID example_need)) = None \<and>
            snd (orgRepo_GetBaseOrganization ?r5 (OrganizationID example_need)) = Some ?e \<and>
            ?e \<noteq> ErrNoRows"
    by (simp add: example_need_def example_repo_def TrimSpace_Beans)
  from validate_order_no_write [of ?r5 example_need ?e example_db] h5
  have c5: "Update ?r5 example_db example_need =
     ((example_need\<lparr>Title := ''Beans''\<rparr>, Some ?e), example_db)"
    by (simp add: prod_eq_iff t TrimSpace_Beans)
  from validate_order_no_write [of example_repo example_need ?e example_db] example_need_valid
  have c6: "validate example_repo example_need = (example_need\<lparr>Title := ''Beans''\<rparr>, None)"
    by (simp add: prod_eq_iff t TrimSpace_Beans)
  from c1 c2 c3 c4 c5 c6 show ?thesis by simp
qed

subsection \<open>Update\<close>

text \<open>
  C4. A Need that passes validation, on a connection that does not fail the UPDATE
  statement: Update returns the validated Need and no error, and this result is the
  same on every database (here \<open>db\<close> and \<open>db2\<close>), so a statement that matched no row
  is not told apart from one that matched a row. When no row has the identifier, the
  result is still a success and the database is unchanged.
\<close>

theorem Update_succeeds_without_match:
  assumes "validate r n = (n', None)"
    and "driver r (UpdateNeed (CategoryID n') (Title n') (Description n') (RequiredQuantity n')
           (ReachedQuantity n') (DueDate n') (Unit n') (Status n') (ID n')) = None"
  shows "fst (Update r db n) = (n', None) \<and>
         fst (Update r db n) = fst (Update r db2 n) \<and>
         (ID n \<notin> r_id ` set (needs db) \<longrightarrow> Update r db n = ((n', None), db))"
proof -
  have n': "n' = n\<lparr>Title := TrimSpace (Title n)\<rparr>"
    using assms(1) validate_fst [of r n] by simp
  then have i: "ID n' = ID n" by simp
  have f: "fst (Update r db n) = (n', None)" for db
    using assms by (simp add: Update_unfold update_need_fst)
  have "snd (Update r db n) = db" if "ID n \<notin> r_id ` set (needs db)"
    using assms(1) that i by (simp add: Update_unfold update_need_no_match)
  with f [of db] f [of db2] show ?thesis by (simp add: prod_eq_iff)
qed

theorem Update_succeeds_without_match_witness:
  "validate example_repo (example_need\<lparr>ID := 99, OrganizationID := 3\<rparr>) =
     (example_need\<lparr>ID := 99, OrganizationID := 3, Title := ''Beans''\<rparr>, None) \<and>
   99 \<notin> r_id ` set (needs example_db) \<and>
   Update example_repo example_db (example_need\<lparr>ID := 99, OrganizationID := 3\<rparr>) =
     ((example_need\<lparr>ID := 99, OrganizationID := 3, Title := ''Beans''\<rparr>, None), example_db) \<and>
   5 \<in> r_id ` set (needs example_db) \<and>
   fst (Update example_repo example_db (example_need\<lparr>ID := 5, OrganizationID := 3\<rparr>)) =
     (example_need\<lparr>ID := 5, OrganizationID := 3, Title := ''Beans''\<rparr>, None)"
proof -
  have d: "driver example_repo q = None" for q
    by (simp add: example_repo_def)
  have m: "99 \<notin> r_id ` set (needs example_db)" "5 \<in> r_id ` set (needs example_db)"
    by (simp_all add: example_db_def)
  have i: "ID (example_need\<lparr>ID := 99, OrganizationID := 3\<rparr>) = 99" by simp
  from Update_succeeds_without_match
         [where db = example_db and ?db2.0 = example_db, OF validate_example [of 99] d]
    Update_succeeds_without_match
         [where db = example_db and ?db2.0 = example_db, OF validate_example [of 5] d]
    validate_example [of 99] m i
  show ?thesis by simp
qed

text \<open>
  C10. Update never changes the organization reference of a row: after any call, the
  rows of the table have, position by position, the identifiers and the
  \<open>organization_id\<close> values they had before. When Update returns no error, every
  row with the identifier of the Need has the category, the trimmed title, the
  description, the two quantities, the due date, the unit and the status of the Need,
  and the clock as its update time. The organization identifier of the supplied Need is
  nevertheless validated: when its lookup reports no rows (title and category being
  valid), Update returns the organization-not-found error and writes nothing.
\<close>

theorem Update_keeps_organization_id:
  "map r_organization_id (needs (snd (Update r db n))) = map r_organization_id (needs db) \<and>
   map r_id (needs (snd (Update r db n))) = map r_id (needs db) \<and>
   (snd (fst (Update r db n)) = None \<longrightarrow>
      (\<forall>row \<in> set (needs (snd (Update r db n))). r_id row = ID n \<longrightarrow>
         r_category_id row = CategoryID n \<and> r_title row = TrimSpace (Title n) \<and>
         r_description row = Description n \<and> r_required_qtd row = RequiredQuantity n \<and>
         r_reached_qtd row = ReachedQuantity n \<and> r_due_date row = DueDate n \<and>
         r_unit row = Unit n \<and> r_status row = Status n \<and>
         r_updated_at row = Some (clock db))) \<and>
   (TrimSpace (Title n) \<noteq> [] \<and> snd (catRepo_Get r (CategoryID n)) = None \<and>
    snd (orgRepo_GetBaseOrganization r (OrganizationID n)) = Some ErrNoRows \<longrightarrow>
      Update r db n =
        ((n\<lparr>Title := TrimSpace (Title n)\<rparr>, Some (ErrOrganizationNotFound (OrganizationID n))),
         db))"
proof -
  have a: "map r_organization_id (needs (snd (Update r db n))) = map r_organization_id (needs db) \<and>
   map r_id (needs (snd (Update r db n))) = map r_id (needs db)"
    by (cases "snd (validate r n)") (simp_all add: Update_unfold Let_def update_need_columns)
  have b: "Update r db n =
        ((n\<lparr>Title := TrimSpace (Title n)\<rparr>, Some (ErrOrganizationNotFound (OrganizationID n))),
         db)"
    if "TrimSpace (Title n) \<noteq> []" "snd (catRepo_Get r (CategoryID n)) = None"
      "snd (orgRepo_GetBaseOrganization r (OrganizationID n)) = Some ErrNoRows"
  proof -
    have "validate r n =
        (n\<lparr>Title := TrimSpace (Title n)\<rparr>, Some (ErrOrganizationNotFound (OrganizationID n)))"
      using that by (simp add: validate_def)
    then show ?thesis by (simp add: Update_unfold)
  qed
  have c: "r_category_id row = CategoryID n \<and> r_title row = TrimSpace (Title n) \<and>
         r_description row = Description n \<and> r_required_qtd row = RequiredQuantity n \<and>
         r_reached_qtd row = ReachedQuantity n \<and> r_due_date row = DueDate n \<and>
         r_unit row = Unit n \<and> r_status row = Status n \<and>
         r_updated_at row = Some (clock db)"
    if ok: "snd (fst (Update r db n)) = None"
      and row: "row \<in> set (needs (snd (Update r db n)))" "r_id row = ID n" for row
  proof (cases "snd (validate r n)")
    case (Some e)
    with ok show ?thesis by (simp add: Update_unfold)
  next
    case None
    let ?v = "n\<lparr>Title := TrimSpace (Title n)\<rparr>"
    have v: "fst (validate r n) = ?v" by (rule validate_fst)
    from None ok row
      update_need_sets [of r db "CategoryID ?v" "Title ?v" "Description ?v" "RequiredQuantity ?v"
        "ReachedQuantity ?v" "DueDate ?v" "Unit ?v" "Status ?v" "ID ?v" row]
    show ?thesis by (simp add: Update_unfold Let_def v)
  qed
  from a b c show ?thesis by blast
qed

theorem Update_keeps_organization_id_witness:
  "OrganizationID (example_need\<lparr>ID := 5, OrganizationID := 3\<rparr>) = 3 \<and>
   snd (fst (Update example_repo example_db (example_need\<lparr>ID := 5, OrganizationID := 3\<rparr>))) = None \<and>
   map r_id (needs (snd (Update example_repo example_db
      (example_need\<lparr>ID := 5, OrganizationID := 3\<rparr>)))) = [5, 6] \<and>
   map r_organization_id (needs (snd (Update example_repo example_db
      (example_need\<lparr>ID := 5, OrganizationID := 3\<rparr>)))) = [2, 2] \<and>
   map r_title (needs (snd (Update example_repo example_db
      (example_need\<lparr>ID := 5, OrganizationID := 3\<rparr>)))) = [''Beans'', ''Blankets''] \<and>
   Update example_repo example_db (example_need\<lparr>ID := 5, OrganizationID := 9\<rparr>) =
     ((example_need\<lparr>ID := 5, OrganizationID := 9, Title := ''Beans''\<rparr>,
       Some (ErrOrganizationNotFound 9)), example_db)"
proof -
  let ?n = "example_need\<lparr>ID := 5, OrganizationID := 3\<rparr>"
  let ?m = "example_need\<lparr>ID := 5, OrganizationID := 9\<rparr>"
  have d: "driver example_repo q = None" for q
    by (simp add: example_repo_def)
  have e: "snd (fst (Update example_repo example_db ?n)) = None"
    by (simp add: Update_unfold validate_example update_need_fst d)
  have t: "map r_title (needs (snd (Update example_repo example_db ?n))) = [''Beans'', ''Blankets'']"
    by (simp add: Update_unfold validate_def update_need_def example_repo_def example_db_def
        example_need_def zeroNeed_def TrimSpace_Beans Let_def)
  have h: "TrimSpace (Title ?m) \<noteq> []" "snd (catRepo_Get example_repo (CategoryID ?m)) = None"
    "snd (orgRepo_GetBaseOrganization example_repo (OrganizationID ?m)) = Some ErrNoRows"
    by (simp_all add: example_need_def example_repo_def TrimSpace_Beans)
  have k: "?m\<lparr>Title := TrimSpace (Title ?m)\<rparr> = example_need\<lparr>ID := 5, OrganizationID := 9, Title := ''Beans''\<rparr>"
    by (simp add: example_need_def TrimSpace_Beans)
  from Update_keeps_organization_id [of example_repo example_db ?n]
    Update_keeps_organization_id [of example_repo example_db ?m] e t h k
  show ?thesis by (simp add: example_db_def)
qed

subsection \<open>DeleteImage\<close>

text \<open>
  C7. DeleteImage touches only the image rows that have both the image identifier and
  the need identifier given: the other image rows are the same before and after, in the
  same order, nothing is added, and the needs are untouched. Its error is exactly the
  error of the driver for the DELETE statement, so without a driver failure it succeeds,
  and then no row with both identifiers is left. When no row has both identifiers the
  database is unchanged, and deleting a second time gives the same result and the same
  database as the first time.
\<close>

theorem DeleteImage_only_matching_row:
  assumes "DeleteImage r db imageID needID = (err, db')"
  shows "err = driver r (DeleteNeedImage imageID needID) \<and>
         needs db' = needs db \<and>
         filter (\<lambda>img. Image_ID img \<noteq> imageID \<or> Image_NeedID img \<noteq> needID) (needs_images db') =
           filter (\<lambda>img. Image_ID img \<noteq> imageID \<or> Image_NeedID img \<noteq> needID) (needs_images db) \<and>
         set (needs_images db') \<subseteq> set (needs_images db) \<and>
         (err = None \<longrightarrow>
            (\<forall>img \<in> set (needs_images db'). Image_ID img \<noteq> imageID \<or> Image_NeedID img \<noteq> needID)) \<and>
         ((\<forall>img \<in> set (needs_images db). Image_ID img \<noteq> imageID \<or> Image_NeedID img \<noteq> needID) \<longrightarrow>
            db' = db) \<and>
         DeleteImage r db' imageID needID = (err, db')"
proof (cases "driver r (DeleteNeedImage imageID needID)")
  case None
  with assms have e: "err = None"
    and d: "db' = db\<lparr>needs_images :=
                filter (\<lambda>img. \<not> (Image_ID img = imageID \<and> Image_NeedID img = needID))
                  (needs_images db)\<rparr>"
    by (simp_all add: DeleteImage_def delete_need_image_def)
  have u: "db' = db"
    if "\<forall>img \<in> set (needs_images db). Image_ID img \<noteq> imageID \<or> Image_NeedID img \<noteq> needID"
  proof -
    from that have "filter (\<lambda>img. \<not> (Image_ID img = imageID \<and> Image_NeedID img = needID))
                  (needs_images db) = needs_images db"
      by (intro filter_True) auto
    with d show ?thesis by simp
  qed
  have i: "DeleteImage r db' imageID needID = (err, db')"
    using None e d by (simp add: DeleteImage_def delete_need_image_def)
  from None e d u i show ?thesis by auto
next
  case (Some x)
  with assms have "err = Some x" and "db' = db"
    by (simp_all add: DeleteImage_def delete_need_image_def)
  with Some assms show ?thesis by simp
qed

theorem DeleteImage_only_matching_row_witness:
  "DeleteImage example_repo example_db 2 5 = (None, example_db) \<and>
   map Image_NeedID (filter (\<lambda>img. Image_ID img = 2) (needs_images example_db)) = [6] \<and>
   fst (DeleteImage example_repo example_db 2 6) = None \<and>
   map Image_ID (needs_images (snd (DeleteImage example_repo example_db 2 6))) = [1] \<and>
   DeleteImage example_repo (snd (DeleteImage example_repo example_db 2 6)) 2 6 =
     DeleteImage example_repo example_db 2 6"
proof -
  have d: "driver example_repo q = None" for q
    by (simp add: example_repo_def)
  have a: "\<forall>img \<in> set (needs_images example_db). Image_ID img \<noteq> 2 \<or> Image_NeedID img \<noteq> 5"
    by (simp add: example_db_def)
  have p: "DeleteImage example_repo example_db i j =
             (fst (DeleteImage example_repo example_db i j),
              snd (DeleteImage example_repo example_db i j))" for i j
    by simp
  have m: "map Image_ID (needs_images (snd (DeleteImage example_repo example_db 2 6))) = [1]"
    by (simp add: DeleteImage_def delete_need_image_def d example_db_def)
  from DeleteImage_only_matching_row [OF p [of 2 5]] DeleteImage_only_matching_row [OF p [of 2 6]]
    a d m
  show ?thesis by (simp add: example_db_def prod_eq_iff)
qed

subsection \<open>Auxiliary facts on the statements\<close>

lemma select_need_example:
  "driver r (SelectNeed 5) = None \<Longrightarrow>
   select_need r example_db 5 =
     Inr \<lparr>r_id = 5, r_category_id = 1, r_organization_id = 2, r_title = ''Rice'',
          r_description = ''bags of rice'', r_required_qtd = 10, r_reached_qtd = 3,
          r_due_date = Some 200, r_status = NeedStatusActive, r_unit = ''kg'',
          r_created_at = 50, r_updated_at = None\<rparr>"
  by (simp add: select_need_def example_db_def)

lemma find_snoc:
  "\<forall>y \<in> set xs. \<not> P y \<Longrightarrow> P x \<Longrightarrow> find P (xs @ [x]) = Some x"
  by (induction xs) simp_all

lemma Create_unfold:
  "Create r db n =
     (case snd (validate r n) of
        Some e \<Rightarrow> (validate r n, db)
      | None \<Rightarrow>
          (let n' = (fst (validate r n))\<lparr>Status := NeedStatusActive\<rparr>;
               q = insert_need r db (CategoryID n') (OrganizationID n') (Title n')
                     (Description n') (RequiredQuantity n') (ReachedQuantity n') (DueDate n')
                     (Status n') (Unit n')
           in case fst q of
                Inl err \<Rightarrow> ((n', Some err), snd q)
              | Inr new_id \<Rightarrow> ((n'\<lparr>ID := new_id\<rparr>, None), snd q)))"
proof (cases "validate r n")
  case (Pair nv verr)
  show ?thesis
  proof (cases verr)
    case None
    let ?n = "nv\<lparr>Status := NeedStatusActive\<rparr>"
    obtain res db' where q: "insert_need r db (CategoryID ?n) (OrganizationID ?n) (Title ?n)
                     (Description ?n) (RequiredQuantity ?n) (ReachedQuantity ?n) (DueDate ?n)
                     (Status ?n) (Unit ?n) = (res, db')"
      by (cases "insert_need r db (CategoryID ?n) (OrganizationID ?n) (Title ?n)
                     (Description ?n) (RequiredQuantity ?n) (ReachedQuantity ?n) (DueDate ?n)
                     (Status ?n) (Unit ?n)")
    show ?thesis
      unfolding Create_def Pair None using q by (cases res) (simp_all add: Let_def)
  next
    case (Some e)
    show ?thesis unfolding Create_def Pair Some by simp
  qed
qed

lemma Create_success:
  assumes "Create r db n = ((n', None), db')"
  shows "\<exists>row. needs db' = needs db @ [row] \<and> r_id row = needs_id_seq db \<and> ID n' = needs_id_seq db \<and>
           r_title row = Title n' \<and> r_description row = Description n' \<and>
           r_required_qtd row = RequiredQuantity n' \<and> r_reached_qtd row = ReachedQuantity n' \<and>
           r_due_date row = DueDate n' \<and> r_unit row = Unit n'"
proof (cases "snd (validate r n)")
  case (Some e)
  with assms show ?thesis by (simp add: Create_unfold prod_eq_iff)
next
  case None
  let ?n = "(fst (validate r n))\<lparr>Status := NeedStatusActive\<rparr>"
  let ?q = "InsertNeed (CategoryID ?n) (OrganizationID ?n) (Title ?n)
                     (Description ?n) (RequiredQuantity ?n) (ReachedQuantity ?n) (DueDate ?n)
                     (Status ?n) (Unit ?n)"
  show ?thesis
  proof (cases "driver r ?q")
    case (Some e)
    with None assms show ?thesis
      by (simp add: Create_unfold insert_need_def Let_def)
  next
    case n: None
    with None assms have "n' = ?n\<lparr>ID := needs_id_seq db\<rparr>"
      and "db' = db\<lparr>needs := needs db @
                  [\<lparr>r_id = needs_id_seq db, r_category_id = CategoryID ?n,
                    r_organization_id = OrganizationID ?n, r_title = Title ?n,
                    r_description = Description ?n, r_required_qtd = RequiredQuantity ?n,
                    r_reached_qtd = ReachedQuantity ?n, r_due_date = DueDate ?n,
                    r_status = Status ?n,
                    r_unit = Unit ?n, r_created_at = clock db, r_updated_at = None\<rparr>],
              needs_id_seq := needs_id_seq db + 1\<rparr>"
      by (simp_all add: Create_unfold insert_need_def Let_def)
    then show ?thesis by simp
  qed
qed

lemma Create_example:
  "Create example_repo example_db example_need =
     ((example_need\<lparr>Title := ''Beans'', Status := NeedStatusActive, ID := 7\<rparr>, None),
      example_db\<lparr>needs := needs example_db @
          [\<lparr>r_id = 7, r_category_id = 1, r_organization_id = 2, r_title = ''Beans'',
            r_description = ''dried'', r_required_qtd = 20, r_reached_qtd = 4,
            r_due_date = Some 300, r_status = NeedStatusActive, r_unit = ''kg'',
            r_created_at = 100, r_updated_at = None\<rparr>],
        needs_id_seq := 8\<rparr>)"
  by (simp add: Create_def validate_def insert_need_def example_need_def example_repo_def
      example_db_def zeroNeed_def TrimSpace_Beans Let_def)

subsection \<open>Get\<close>

text \<open>
  C3. The claim is that an error of any step of Get (the need row, the image list, the
  category, the base organization) ends the call and is returned. The code checks the
  error of the first step only. On the database \<open>example_db\<close> and a connection that
  fails the statement reading the images of need 5 and every category lookup, both
  steps report an error, and Get still goes on to the organization lookup and returns
  need 5 with no images, the zero category and a nil error.
\<close>

theorem Get_ignores_lookup_errors:
  "select_need_images faulty_repo example_db 5 = Inl (ErrDriver ''connection reset'') \<and>
   snd (catRepo_Get faulty_repo 1) = Some (ErrDriver ''connection reset'') \<and>
   Get faulty_repo example_db 5 =
     Returned
       (Some \<lparr>ID = 5, CategoryID = 1, OrganizationID = 2, Title = ''Rice'',
              Description = ''bags of rice'', RequiredQuantity = 10, ReachedQuantity = 3,
              DueDate = Some 200, Status = NeedStatusActive, Unit = ''kg'', CreatedAt = 50,
              UpdatedAt = None, Images = [],
              Category = \<lparr>Category_ID = 0, Category_Name = []\<rparr>,
              Organization = \<lparr>Organization_ID = 2, Organization_Name = ''Shelter''\<rparr>\<rparr>,
        None)"
proof -
  have d: "driver faulty_repo (SelectNeed 5) = None"
    by (simp add: faulty_repo_def)
  have i: "select_need_images faulty_repo example_db 5 = Inl (ErrDriver ''connection reset'')"
    by (simp add: select_need_images_def faulty_repo_def)
  have c: "catRepo_Get faulty_repo 1 =
             (\<lparr>Category_ID = 0, Category_Name = []\<rparr>, Some (ErrDriver ''connection reset''))"
    by (simp add: faulty_repo_def)
  have o: "orgRepo_GetBaseOrganization faulty_repo 2 =
             (Some \<lparr>Organization_ID = 2, Organization_Name = ''Shelter''\<rparr>, None)"
    by (simp add: faulty_repo_def example_repo_def)
  have "Get faulty_repo example_db 5 =
     Returned
       (Some \<lparr>ID = 5, CategoryID = 1, OrganizationID = 2, Title = ''Rice'',
              Description = ''bags of rice'', RequiredQuantity = 10, ReachedQuantity = 3,
              DueDate = Some 200, Status = NeedStatusActive, Unit = ''kg'', CreatedAt = 50,
              UpdatedAt = None, Images = [],
              Category = \<lparr>Category_ID = 0, Category_Name = []\<rparr>,
              Organization = \<lparr>Organization_ID = 2, Organization_Name = ''Shelter''\<rparr>\<rparr>,
        None)"
    by (simp add: Get_def select_need_example [OF d] Let_def scanNeed_def zeroNeed_def
        getNeedImages_def i c o)
  with i c show ?thesis by simp
qed

text \<open>
  C9. When the need row is found and the base-organization lookup returns an error,
  Get never returns that error: with a nil organization pointer the dereference
  panics, and with a non-nil pointer Get returns a need and a nil error.
\<close>

theorem Get_panics_on_nil_organization:
  assumes "select_need r db i = Inr row"
    and "orgRepo_GetBaseOrganization r (r_organization_id row) = (p, Some e)"
  shows "(p = None \<longrightarrow> Get r db i = Panic) \<and>
         (p \<noteq> None \<longrightarrow> (\<exists>n. Get r db i = Returned (Some n, None)))"
  using assms by (cases p) (simp_all add: Get_def Let_def scanNeed_def)

theorem Get_panics_on_nil_organization_witness:
  "select_need
     (example_repo\<lparr>orgRepo_GetBaseOrganization := \<lambda>i. (None, Some (ErrDriver ''connection reset''))\<rparr>)
     example_db 5 =
     Inr \<lparr>r_id = 5, r_category_id = 1, r_organization_id = 2, r_title = ''Rice'',
          r_description = ''bags of rice'', r_required_qtd = 10, r_reached_qtd = 3,
          r_due_date = Some 200, r_status = NeedStatusActive, r_unit = ''kg'',
          r_created_at = 50, r_updated_at = None\<rparr> \<and>
   Get (example_repo\<lparr>orgRepo_GetBaseOrganization := \<lambda>i. (None, Some (ErrDriver ''connection reset''))\<rparr>)
     example_db 5 = Panic \<and>
   (\<exists>n. Get (example_repo\<lparr>orgRepo_GetBaseOrganization :=
                 \<lambda>i. (Some \<lparr>Organization_ID = 0, Organization_Name = []\<rparr>,
                      Some (ErrDriver ''connection reset''))\<rparr>)
          example_db 5 = Returned (Some n, None))"
proof -
  let ?r2 = "example_repo\<lparr>orgRepo_GetBaseOrganization :=
                 \<lambda>i. (Some \<lparr>Organization_ID = 0, Organization_Name = []\<rparr>,
                      Some (ErrDriver ''connection reset''))\<rparr>"
  have d2: "driver ?r2 (SelectNeed 5) = None"
    by (simp add: example_repo_def)
  note s2 = select_need_example [OF d2]
  have o2: "orgRepo_GetBaseOrganization ?r2
             (r_organization_id \<lparr>r_id = 5, r_category_id = 1, r_organization_id = 2, r_title = ''Rice'',
          r_description = ''bags of rice'', r_required_qtd = 10, r_reached_qtd = 3,
          r_due_date = Some 200, r_status = NeedStatusActive, r_unit = ''kg'',
          r_created_at = 50, r_updated_at = None\<rparr>) =
            (Some \<lparr>Organization_ID = 0, Organization_Name = []\<rparr>,
             Some (ErrDriver ''connection reset''))"
    by simp
  from Get_panics_on_nil_organization [OF s2 o2]
  have g2: "\<exists>n. Get ?r2 example_db 5 = Returned (Some n, None)"
    by simp
  let ?r = "example_repo\<lparr>orgRepo_GetBaseOrganization :=
              \<lambda>i. (None, Some (ErrDriver ''connection reset''))\<rparr>"
  have d: "driver ?r (SelectNeed 5) = None"
    by (simp add: example_repo_def)
  note s = select_need_example [OF d]
  have o: "orgRepo_GetBaseOrganization ?r
             (r_organization_id \<lparr>r_id = 5, r_category_id = 1, r_organization_id = 2, r_title = ''Rice'',
          r_description = ''bags of rice'', r_required_qtd = 10, r_reached_qtd = 3,
          r_due_date = Some 200, r_status = NeedStatusActive, r_unit = ''kg'',
          r_created_at = 50, r_updated_at = None\<rparr>) = (None, Some (ErrDriver ''connection reset''))"
    by simp
  from Get_panics_on_nil_organization [OF s o] s g2 show ?thesis by simp
qed

subsection \<open>Create, then Get\<close>

text \<open>
  C8. A Need that Create returned without error, in a table where the generated
  identifier was not yet used by any row (identifiers are unique): when Get of the
  returned identifier returns a need, its title, description, required and reached
  quantity, due date and unit are those of the Need that Create returned.
\<close>

theorem Create_Get_round_trip:
  assumes "Create r db n = ((n', None), db')"
    and "needs_id_seq db \<notin> r_id ` set (needs db)"
    and "Get r db' (ID n') = Returned (Some m, err)"
  shows "Title m = Title n' \<and> Description m = Description n' \<and>
         RequiredQuantity m = RequiredQuantity n' \<and> ReachedQuantity m = ReachedQuantity n' \<and>
         DueDate m = DueDate n' \<and> Unit m = Unit n'"
proof -
  from Create_success [OF assms(1)] obtain row where
    row: "needs db' = needs db @ [row]" "r_id row = needs_id_seq db" "ID n' = needs_id_seq db"
      "r_title row = Title n'" "r_description row = Description n'"
      "r_required_qtd row = RequiredQuantity n'" "r_reached_qtd row = ReachedQuantity n'"
      "r_due_date row = DueDate n'" "r_unit row = Unit n'"
    by blast
  have "\<forall>y \<in> set (needs db). r_id y \<noteq> needs_id_seq db"
    using assms(2) by force
  then have f: "find (\<lambda>x. r_id x = ID n') (needs db') = Some row"
    unfolding row(1) using row(2,3) by (intro find_snoc) simp_all
  show ?thesis
  proof (cases "driver r (SelectNeed (ID n'))")
    case (Some e)
    with assms(3) show ?thesis by (simp add: Get_def select_need_def)
  next
    case None
    with f have s: "select_need r db' (ID n') = Inr row"
      by (simp add: select_need_def)
    from assms(3) row(4-) show ?thesis
      unfolding Get_def s
      by (auto simp: Let_def scanNeed_def split: option.splits)
  qed
qed

theorem Create_Get_round_trip_witness:
  "snd (fst (Create example_repo example_db example_need)) = None \<and>
   needs_id_seq example_db \<notin> r_id ` set (needs example_db) \<and>
   (\<exists>m. Get example_repo (snd (Create example_repo example_db example_need))
           (ID (fst (fst (Create example_repo example_db example_need)))) = Returned (Some m, None) \<and>
        Title m = ''Beans'' \<and> Description m = ''dried'' \<and> RequiredQuantity m = 20 \<and>
        ReachedQuantity m = 4 \<and> DueDate m = Some 300 \<and> Unit m = ''kg'')"
proof -
  let ?n' = "example_need\<lparr>Title := ''Beans'', Status := NeedStatusActive, ID := 7\<rparr>"
  let ?db' = "example_db\<lparr>needs := needs example_db @
          [\<lparr>r_id = 7, r_category_id = 1, r_organization_id = 2, r_title = ''Beans'',
            r_description = ''dried'', r_required_qtd = 20, r_reached_qtd = 4,
            r_due_date = Some 300, r_status = NeedStatusActive, r_unit = ''kg'',
            r_created_at = 100, r_updated_at = None\<rparr>],
        needs_id_seq := 8\<rparr>"
  have fresh: "needs_id_seq example_db \<notin> r_id ` set (needs example_db)"
    by (simp add: example_db_def)
  have "\<exists>m. Get example_repo ?db' (ID ?n') = Returned (Some m, None)"
    by (simp add: Get_def select_need_def example_repo_def example_db_def Let_def
        scanNeed_def)
  then obtain m where g: "Get example_repo ?db' (ID ?n') = Returned (Some m, None)"
    by blast
  from Create_Get_round_trip [OF Create_example fresh g]
  have "Title m = ''Beans'' \<and> Description m = ''dried'' \<and> RequiredQuantity m = 20 \<and>
        ReachedQuantity m = 4 \<and> DueDate m = Some 300 \<and> Unit m = ''kg''"
    by (simp add: example_need_def)
  with g fresh show ?thesis
    unfolding Create_example by auto
qed

subsection \<open>Auxiliary facts on the ORDER BY clause and the enrichment loop\<close>

lemma orderFilter_direction_error:
  "orderBy \<noteq> [] \<Longrightarrow> order \<noteq> [] \<Longrightarrow> order \<noteq> ''asc'' \<Longrightarrow> order \<noteq> ''desc'' \<Longrightarrow>
   orderFilter orderBy order = Inl ErrOrderNotRecognized"
  by (simp add: orderFilter_def)

lemma orderFilter_empty_direction: "orderFilter orderBy [] = orderFilter orderBy ''asc''"
  by (simp add: orderFilter_def)

lemma orderFilter_accepts:
  "orderBy \<noteq> [] \<Longrightarrow> order = ''asc'' \<or> order = ''desc'' \<Longrightarrow>
   orderFilter orderBy order =
     Inr (''ORDER BY '' @ (if orderBy = ''id'' \<or> orderBy = ''updated_at'' then orderBy
                           else ''created_at'') @ '' '' @ order @ '' '')"
  by (auto simp: orderFilter_def)

lemma orderFilter_fallback:
  "orderBy \<noteq> [] \<Longrightarrow> orderBy \<noteq> ''id'' \<Longrightarrow> orderBy \<noteq> ''updated_at'' \<Longrightarrow>
   orderFilter orderBy order = orderFilter ''created_at'' order"
  by (simp add: orderFilter_def)

lemma orderFilter_no_column: "orderFilter [] order = Inr []"
  by (simp add: orderFilter_def)

lemma GetOrganizationNeeds_cong:
  "orderFilter orderBy order = orderFilter orderBy' order' \<Longrightarrow>
   GetOrganizationNeeds r db oID orderBy order = GetOrganizationNeeds r db oID orderBy' order'"
  by (simp add: GetOrganizationNeeds_def)

lemma enrich_CreatedAt:
  "(snd (enrich r db ns) = None \<longrightarrow> map CreatedAt (fst (enrich r db ns)) = map CreatedAt ns) \<and>
   (snd (enrich r db ns) \<noteq> None \<longrightarrow> fst (enrich r db ns) = [])"
proof (induction ns)
  case Nil
  show ?case by simp
next
  case (Cons n ns)
  obtain c cerr where c: "catRepo_Get r (CategoryID n) = (c, cerr)"
    by (cases "catRepo_Get r (CategoryID n)")
  obtain imgs ierr where i: "getNeedImages r db (n\<lparr>Category := c\<rparr>) = (imgs, ierr)"
    by (cases "getNeedImages r db (n\<lparr>Category := c\<rparr>)")
  obtain ns' eerr where e: "enrich r db ns = (ns', eerr)"
    by (cases "enrich r db ns")
  from Cons.IH e show ?case
    by (cases cerr; cases ierr; cases eerr) (simp_all add: c i e)
qed

lemma enrich_sorted:
  "sorted (map CreatedAt ns) \<Longrightarrow> sorted (map CreatedAt (fst (enrich r db ns)))"
  using enrich_CreatedAt [of r db ns] by (cases "snd (enrich r db ns)") auto

lemma enrich_sorted_rev:
  "sorted (rev (map CreatedAt ns)) \<Longrightarrow> sorted (rev (map CreatedAt (fst (enrich r db ns))))"
  using enrich_CreatedAt [of r db ns] by (cases "snd (enrich r db ns)") auto

lemma CreatedAt_scanNeed: "CreatedAt (scanNeed row n) = r_created_at row"
  by (simp add: scanNeed_def)

lemma GetOrganizationNeeds_created_at_asc:
  assumes "orderFilter orderBy order = Inr ''ORDER BY created_at asc ''"
  shows "sorted (map CreatedAt (fst (GetOrganizationNeeds r db oID orderBy order)))"
proof (cases "select_organization_needs r db ''ORDER BY created_at asc '' oID")
  case (Inl e)
  with assms show ?thesis by (simp add: GetOrganizationNeeds_def)
next
  case (Inr rows)
  then have "rows = sort_key r_created_at (filter (\<lambda>row. r_organization_id row = oID) (needs db))"
    by (auto simp: select_organization_needs_def order_by_def split: option.splits)
  then have "sorted (map r_created_at rows)"
    by (simp add: sorted_sort_key)
  then have "sorted (map CreatedAt (map (\<lambda>row. scanNeed row zeroNeed) rows))"
    by (simp add: o_def CreatedAt_scanNeed)
  with assms Inr show ?thesis
    by (simp add: GetOrganizationNeeds_def enrich_sorted)
qed

lemma GetOrganizationNeeds_created_at_desc:
  assumes "orderFilter orderBy order = Inr ''ORDER BY created_at desc ''"
  shows "sorted (rev (map CreatedAt (fst (GetOrganizationNeeds r db oID orderBy order))))"
proof (cases "select_organization_needs r db ''ORDER BY created_at desc '' oID")
  case (Inl e)
  with assms show ?thesis by (simp add: GetOrganizationNeeds_def)
next
  case (Inr rows)
  then have "rows = rev (sort_key r_created_at (filter (\<lambda>row. r_organization_id row = oID) (needs db)))"
    by (auto simp: select_organization_needs_def order_by_def split: option.splits)
  then have "sorted (rev (map r_created_at rows))"
    by (simp add: sorted_sort_key rev_map [symmetric])
  then have "sorted (rev (map CreatedAt (map (\<lambda>row. scanNeed row zeroNeed) rows)))"
    by (simp add: o_def CreatedAt_scanNeed)
  with assms Inr show ?thesis
    by (simp add: GetOrganizationNeeds_def enrich_sorted_rev)
qed

lemma GetOrganizationNeeds_example:
  "snd (GetOrganizationNeeds example_repo example_db 2 ''created_at'' []) = None \<and>
   map ID (fst (GetOrganizationNeeds example_repo example_db 2 ''created_at'' [])) = [6, 5]"
  by (simp add: GetOrganizationNeeds_def orderFilter_def select_organization_needs_def
      order_by_def example_repo_def example_db_def getNeedImages_def select_need_images_def
      scanNeed_def)

subsection \<open>GetOrganizationNeeds\<close>

text \<open>
  C5, as the code has it. A requested sort column that is not empty and is neither
  \<open>id\<close> nor \<open>updated_at\<close> is replaced by \<open>created_at\<close>: the clause built and the
  whole result are those of a request for \<open>created_at\<close>, no error comes from the
  column, and with a direction that is empty, \<open>asc\<close> or \<open>desc\<close> the clause is
  \<open>ORDER BY created_at asc\<close> or \<open>ORDER BY created_at desc\<close> and the needs returned are
  in that order of creation time. An empty sort column is not replaced: no ORDER BY
  clause is built, and the direction is not looked at.
\<close>

theorem GetOrganizationNeeds_column_fallback:
  "(orderBy \<noteq> [] \<and> orderBy \<noteq> ''id'' \<and> orderBy \<noteq> ''updated_at'' \<longrightarrow>
      orderFilter orderBy order = orderFilter ''created_at'' order \<and>
      GetOrganizationNeeds r db oID orderBy order =
        GetOrganizationNeeds r db oID ''created_at'' order \<and>
      (order = [] \<or> order = ''asc'' \<longrightarrow>
         orderFilter orderBy order = Inr ''ORDER BY created_at asc '' \<and>
         sorted (map CreatedAt (fst (GetOrganizationNeeds r db oID orderBy order)))) \<and>
      (order = ''desc'' \<longrightarrow>
         orderFilter orderBy order = Inr ''ORDER BY created_at desc '' \<and>
         sorted (rev (map CreatedAt (fst (GetOrganizationNeeds r db oID orderBy order)))))) \<and>
   orderFilter [] order = Inr [] \<and>
   GetOrganizationNeeds r db oID [] order = GetOrganizationNeeds r db oID [] []"
proof -
  have a: "orderFilter orderBy order = Inr ''ORDER BY created_at asc ''"
    if "orderBy \<noteq> []" "orderBy \<noteq> ''id''" "orderBy \<noteq> ''updated_at''" "order = [] \<or> order = ''asc''"
    using that by (auto simp: orderFilter_def)
  have d: "orderFilter orderBy order = Inr ''ORDER BY created_at desc ''"
    if "orderBy \<noteq> []" "orderBy \<noteq> ''id''" "orderBy \<noteq> ''updated_at''" "order = ''desc''"
    using that by (auto simp: orderFilter_def)
  have f: "GetOrganizationNeeds r db oID orderBy order =
        GetOrganizationNeeds r db oID ''created_at'' order"
    if "orderBy \<noteq> []" "orderBy \<noteq> ''id''" "orderBy \<noteq> ''updated_at''"
    using that by (intro GetOrganizationNeeds_cong orderFilter_fallback)
  have e: "GetOrganizationNeeds r db oID [] order = GetOrganizationNeeds r db oID [] []"
    by (intro GetOrganizationNeeds_cong) (simp add: orderFilter_no_column)
  from a d f e orderFilter_fallback [of orderBy order] orderFilter_no_column [of order]
    GetOrganizationNeeds_created_at_asc [of orderBy order r db oID]
    GetOrganizationNeeds_created_at_desc [of orderBy order r db oID]
  show ?thesis by blast
qed

theorem GetOrganizationNeeds_column_fallback_witness:
  "orderFilter ''bogus'' [] = Inr ''ORDER BY created_at asc '' \<and>
   snd (GetOrganizationNeeds example_repo example_db 2 ''bogus'' []) = None \<and>
   map ID (fst (GetOrganizationNeeds example_repo example_db 2 ''bogus'' [])) = [6, 5] \<and>
   sorted (map CreatedAt (fst (GetOrganizationNeeds example_repo example_db 2 ''bogus'' []))) \<and>
   orderFilter ''bogus'' ''desc'' = Inr ''ORDER BY created_at desc '' \<and>
   orderFilter [] ''sideways'' = Inr []"
proof -
  have h: "''bogus'' \<noteq> [] \<and> ''bogus'' \<noteq> ''id'' \<and> ''bogus'' \<noteq> ''updated_at''"
    by simp
  from GetOrganizationNeeds_column_fallback [of "''bogus''" "[]" example_repo example_db 2] h
  have a: "GetOrganizationNeeds example_repo example_db 2 ''bogus'' [] =
             GetOrganizationNeeds example_repo example_db 2 ''created_at'' []"
    and b: "orderFilter ''bogus'' [] = Inr ''ORDER BY created_at asc ''"
    and c: "sorted (map CreatedAt (fst (GetOrganizationNeeds example_repo example_db 2 ''bogus'' [])))"
    by blast+
  from GetOrganizationNeeds_column_fallback [of "''bogus''" "''desc''" example_repo example_db 2] h
  have d: "orderFilter ''bogus'' ''desc'' = Inr ''ORDER BY created_at desc ''"
    by blast
  from GetOrganizationNeeds_column_fallback [of "[]" "''sideways''" example_repo example_db 2]
  have e: "orderFilter [] ''sideways'' = Inr []"
    by blast
  from a b c d e GetOrganizationNeeds_example show ?thesis by simp
qed

text \<open>
  C5 as stated includes the empty string among the values that fall back to
  \<open>created_at\<close>. With an empty column and an empty direction the clause is empty, not
  the one of \<open>created_at\<close>, and on \<open>example_db\<close> the needs of organization 2 come in
  the order of the table, creation times 50 then 30.
\<close>

theorem GetOrganizationNeeds_empty_column_counterexample:
  "orderFilter [] [] = Inr [] \<and>
   orderFilter [] [] \<noteq> orderFilter ''created_at'' [] \<and>
   snd (GetOrganizationNeeds example_repo example_db 2 [] []) = None \<and>
   map CreatedAt (fst (GetOrganizationNeeds example_repo example_db 2 [] [])) = [50, 30] \<and>
   \<not> sorted (map CreatedAt (fst (GetOrganizationNeeds example_repo example_db 2 [] [])))"
  by (simp add: GetOrganizationNeeds_def orderFilter_def select_organization_needs_def
      order_by_def example_repo_def example_db_def getNeedImages_def select_need_images_def
      scanNeed_def)

text \<open>
  C6. With a sort column requested (not empty): a direction that is not empty and is
  neither \<open>asc\<close> nor \<open>desc\<close> makes the call return the direction error, on every
  repository and database, so also on a connection that would fail every statement:
  the result is fixed before any statement is sent. The directions \<open>asc\<close> and \<open>desc\<close>
  are put into the clause as they are, and an empty direction gives the clause and the
  result of \<open>asc\<close>.
\<close>

theorem GetOrganizationNeeds_direction:
  assumes "orderBy \<noteq> []"
  shows "(order \<noteq> [] \<and> order \<noteq> ''asc'' \<and> order \<noteq> ''desc'' \<longrightarrow>
            GetOrganizationNeeds r db oID orderBy order = ([], Some ErrOrderNotRecognized)) \<and>
         (order = ''asc'' \<or> order = ''desc'' \<longrightarrow>
            orderFilter orderBy order =
              Inr (''ORDER BY '' @ (if orderBy = ''id'' \<or> orderBy = ''updated_at'' then orderBy
                                    else ''created_at'') @ '' '' @ order @ '' '')) \<and>
         orderFilter orderBy [] = orderFilter orderBy ''asc'' \<and>
         GetOrganizationNeeds r db oID orderBy [] = GetOrganizationNeeds r db oID orderBy ''asc''"
proof -
  have a: "GetOrganizationNeeds r db oID orderBy order = ([], Some ErrOrderNotRecognized)"
    if "order \<noteq> []" "order \<noteq> ''asc''" "order \<noteq> ''desc''"
    using orderFilter_direction_error [OF assms that] by (simp add: GetOrganizationNeeds_def)
  have b: "GetOrganizationNeeds r db oID orderBy [] = GetOrganizationNeeds r db oID orderBy ''asc''"
    by (intro GetOrganizationNeeds_cong orderFilter_empty_direction)
  from a b orderFilter_accepts [OF assms, of order] orderFilter_empty_direction [of orderBy]
  show ?thesis by blast
qed

theorem GetOrganizationNeeds_direction_witness:
  "GetOrganizationNeeds example_repo example_db 2 ''id'' ''sideways'' =
     ([], Some ErrOrderNotRecognized) \<and>
   GetOrganizationNeeds (example_repo\<lparr>driver := \<lambda>s. Some (ErrDriver ''connection refused'')\<rparr>)
     example_db 2 ''id'' ''sideways'' = ([], Some ErrOrderNotRecognized) \<and>
   GetOrganizationNeeds (example_repo\<lparr>driver := \<lambda>s. Some (ErrDriver ''connection refused'')\<rparr>)
     example_db 2 ''id'' ''desc'' = ([], Some (ErrDriver ''connection refused'')) \<and>
   orderFilter ''id'' ''desc'' = Inr ''ORDER BY id desc '' \<and>
   orderFilter ''id'' [] = Inr ''ORDER BY id asc '' \<and>
   GetOrganizationNeeds example_repo example_db 2 ''id'' [] =
     GetOrganizationNeeds example_repo example_db 2 ''id'' ''asc''"
proof -
  let ?r = "example_repo\<lparr>driver := \<lambda>s. Some (ErrDriver ''connection refused'')\<rparr>"
  have h: "''id'' \<noteq> []" "''sideways'' \<noteq> [] \<and> ''sideways'' \<noteq> ''asc'' \<and> ''sideways'' \<noteq> ''desc''"
    by simp_all
  have q: "GetOrganizationNeeds ?r example_db 2 ''id'' ''desc'' =
             ([], Some (ErrDriver ''connection refused''))"
    by (simp add: GetOrganizationNeeds_def orderFilter_def select_organization_needs_def)
  from GetOrganizationNeeds_direction [OF h(1), of "''sideways''" example_repo example_db 2]
    GetOrganizationNeeds_direction [OF h(1), of "''sideways''" ?r example_db 2]
    GetOrganizationNeeds_direction [OF h(1), of "''desc''" example_repo example_db 2]
    GetOrganizationNeeds_direction [OF h(1), of "''asc''" example_repo example_db 2]
    h(2) q
  show ?thesis by simp
qed

end
